theory Spec2Isabelle
  imports Main
begin

section \<open>The sharding proof of concept: data model\<close>

text \<open>
  The Go program \<^verbatim>\<open>sharding-poc/main.go\<close> routes users to one of several PostgreSQL
  databases by \<^verbatim>\<open>userID % len(sm.shards)\<close>. The handlers write an HTTP response, append to
  the process log and talk to the databases. In the embedding a handler is a function
  from the shard manager (and the request) to an \<open>effect\<close>: the outcome of the handler
  (a response, or a Go run-time panic), the log lines it printed, and the shard manager
  with the databases as the handler left them.
\<close>

subsection \<open>Go integers\<close>

text \<open>
  Go's \<^verbatim>\<open>/\<close> truncates towards zero and \<^verbatim>\<open>x % y\<close> is \<^verbatim>\<open>x - (x / y) * y\<close>, so the remainder
  takes the sign of the dividend. A zero divisor panics; the callers check it.
\<close>

definition go_quot :: "int \<Rightarrow> int \<Rightarrow> int" where
  "go_quot x y = sgn x * sgn y * (\<bar>x\<bar> div \<bar>y\<bar>)"

definition go_rem :: "int \<Rightarrow> int \<Rightarrow> int" where
  "go_rem x y = x - go_quot x y * y"

subsection \<open>Users, rows and shards\<close>

record User =
  UserID :: int
  Name :: string
  Email :: string
  CreatedAt :: string

text \<open>
  A row of the table \<^verbatim>\<open>users\<close> of \<^verbatim>\<open>init_db.sql\<close>: \<^verbatim>\<open>user_id\<close> is the primary key,
  \<^verbatim>\<open>name\<close> and \<^verbatim>\<open>email\<close> are \<^verbatim>\<open>NOT NULL\<close>, \<^verbatim>\<open>email\<close> is \<^verbatim>\<open>UNIQUE\<close>, and \<^verbatim>\<open>created_at\<close>
  defaults to the current timestamp but may hold \<^verbatim>\<open>NULL\<close>.
\<close>

record row =
  user_id :: int
  name :: string
  email :: string
  created_at :: "string option"

datatype db_error =
    ErrNoRows
  | ConnError string
  | UniqueViolation string
  | ScanError string

fun error_text :: "db_error \<Rightarrow> string" where
  "error_text ErrNoRows = ''sql: no rows in result set''"
| "error_text (ConnError m) = m"
| "error_text (UniqueViolation c) = ''pq: duplicate key value violates unique constraint '' @ c"
| "error_text (ScanError c) = ''sql: Scan error on column '' @ c @ '': converting NULL to string is unsupported''"

datatype db_call =
    Ping
  | SelectUser int
  | InsertUser int string string
  | SelectAllUsers

text \<open>
  A shard is one \<^verbatim>\<open>*sql.DB\<close> handle together with the database behind it: \<open>down\<close> holds the
  connection error when the database cannot be reached, \<open>users\<close> is the table, \<open>now\<close> the
  server's current timestamp, and \<open>calls\<close> the statements that were sent through the
  handle, in order (sent, whether or not the database answered).
\<close>

record shard =
  down :: "string option"
  users :: "row list"
  now :: string
  calls :: "db_call list"

definition received :: "db_call \<Rightarrow> shard \<Rightarrow> shard" where
  "received c sh = sh\<lparr>calls := calls sh @ [c]\<rparr>"

text \<open>\<^verbatim>\<open>Scan(&user.UserID, &user.Name, &user.Email, &user.CreatedAt)\<close> on one row.\<close>

definition scan_user :: "row \<Rightarrow> db_error + User" where
  "scan_user r =
     (case created_at r of
        None \<Rightarrow> Inl (ScanError ''created_at'')
      | Some t \<Rightarrow> Inr \<lparr>UserID = user_id r, Name = name r, Email = email r, CreatedAt = t\<rparr>)"

text \<open>\<^verbatim>\<open>SELECT user_id, name, email, created_at FROM users WHERE user_id = $1\<close>, then \<^verbatim>\<open>Scan\<close>.\<close>

definition select_user :: "int \<Rightarrow> shard \<Rightarrow> (db_error + User) \<times> shard" where
  "select_user k sh =
     ((case down sh of
         Some m \<Rightarrow> Inl (ConnError m)
       | None \<Rightarrow>
           (case find (\<lambda>r. user_id r = k) (users sh) of
              None \<Rightarrow> Inl ErrNoRows
            | Some r \<Rightarrow> scan_user r)),
      received (SelectUser k) sh)"

text \<open>
  \<^verbatim>\<open>INSERT INTO users (user_id, name, email) VALUES ($1, $2, $3) RETURNING created_at\<close>,
  then \<^verbatim>\<open>Scan(&user.CreatedAt)\<close>.
\<close>

definition insert_user :: "User \<Rightarrow> shard \<Rightarrow> (db_error + string) \<times> shard" where
  "insert_user u sh =
     (let sh' = received (InsertUser (UserID u) (Name u) (Email u)) sh in
      case down sh of
        Some m \<Rightarrow> (Inl (ConnError m), sh')
      | None \<Rightarrow>
          if list_ex (\<lambda>r. user_id r = UserID u) (users sh)
          then (Inl (UniqueViolation ''users_pkey''), sh')
          else if list_ex (\<lambda>r. email r = Email u) (users sh)
          then (Inl (UniqueViolation ''users_email_key''), sh')
          else (Inr (now sh),
                sh'\<lparr>users := users sh @
                  [\<lparr>user_id = UserID u, name = Name u, email = Email u,
                    created_at = Some (now sh)\<rparr>]\<rparr>))"

text \<open>\<^verbatim>\<open>SELECT user_id, name, email, created_at FROM users ORDER BY user_id\<close>.\<close>

definition select_all :: "shard \<Rightarrow> (db_error + row list) \<times> shard" where
  "select_all sh =
     ((case down sh of
         Some m \<Rightarrow> Inl (ConnError m)
       | None \<Rightarrow> Inr (sort_key user_id (users sh))),
      received SelectAllUsers sh)"

definition ping :: "shard \<Rightarrow> string option \<times> shard" where
  "ping sh = (down sh, received Ping sh)"

subsection \<open>The shard manager, the log and the responses\<close>

record ShardManager =
  shards :: "shard list"

datatype log_entry =
    Connected
  | Routing int int
  | QueryFailed nat string
  | ScanFailed nat string

datatype panic =
    DivideByZero
  | IndexOutOfRange int nat

datatype body =
    ErrorJSON string
  | UserJSON User int string
  | UsersJSON "User list" nat string

datatype outcome =
    Response nat body
  | Panicked panic

record effect =
  outcome :: outcome
  logs :: "log_entry list"
  manager :: ShardManager

section \<open>Routing\<close>

text \<open>The expression \<^verbatim>\<open>userID % len(sm.shards)\<close>, evaluated where the divisor is not zero.\<close>

definition shardIndex :: "ShardManager \<Rightarrow> int \<Rightarrow> int" where
  "shardIndex sm userID = go_rem userID (int (length (shards sm)))"

text \<open>
  \<^verbatim>\<open>getShardForUser\<close> returns the handle \<^verbatim>\<open>sm.shards[shardIndex]\<close>; the model returns its
  position in the slice. The remainder by an empty slice's length panics before the log
  line, an index outside the slice panics after it.
\<close>

definition getShardForUser :: "ShardManager \<Rightarrow> int \<Rightarrow> log_entry list \<times> (panic + nat)" where
  "getShardForUser sm userID =
     (if length (shards sm) = 0 then ([], Inl DivideByZero)
      else
        ([Routing userID (shardIndex sm userID)],
         if 0 \<le> shardIndex sm userID \<and> shardIndex sm userID < int (length (shards sm))
         then Inr (nat (shardIndex sm userID))
         else Inl (IndexOutOfRange (shardIndex sm userID) (length (shards sm)))))"

section \<open>Start-up\<close>

text \<open>
  \<^verbatim>\<open>NewShardManager\<close> reads the two data source names from the environment, opens both
  handles, then pings both. \<open>getenv\<close> is \<^verbatim>\<open>os.Getenv\<close> and \<open>sql_Open\<close> is
  \<^verbatim>\<open>sql.Open("postgres", _)\<close>: the handle for a data source name, or the driver's error.
  The first failure returns \<^verbatim>\<open>nil\<close> and the wrapped error.
\<close>

definition NewShardManager ::
  "(string \<Rightarrow> string) \<Rightarrow> (string \<Rightarrow> string + shard) \<Rightarrow> log_entry list \<times> (string + ShardManager)"
where
  "NewShardManager getenv sql_Open =
     (let shard0DSN = getenv ''SHARD_0_DSN'';
          shard1DSN = getenv ''SHARD_1_DSN''
      in case sql_Open shard0DSN of
           Inl err \<Rightarrow> ([], Inl (''failed to connect to shard 0: '' @ err))
         | Inr shard0 \<Rightarrow>
             (case sql_Open shard1DSN of
                Inl err \<Rightarrow> ([], Inl (''failed to connect to shard 1: '' @ err))
              | Inr shard1 \<Rightarrow>
                  (case ping shard0 of
                     (Some err, _) \<Rightarrow> ([], Inl (''shard 0 ping failed: '' @ err))
                   | (None, shard0') \<Rightarrow>
                       (case ping shard1 of
                          (Some err, _) \<Rightarrow> ([], Inl (''shard 1 ping failed: '' @ err))
                        | (None, shard1') \<Rightarrow>
                            ([Connected], Inr \<lparr>shards = [shard0', shard1']\<rparr>)))))"

section \<open>Parsing the path parameter\<close>

text \<open>
  \<^verbatim>\<open>strconv.Atoi\<close> of the Go library on a 64-bit platform: an optional sign, then at least
  one decimal digit and nothing else; a value outside the range of \<^verbatim>\<open>int\<close> is a range
  error.
\<close>

datatype num_error = ErrSyntax | ErrRange

fun digits_value :: "string \<Rightarrow> nat \<Rightarrow> nat option" where
  "digits_value [] n = Some n"
| "digits_value (ch # s) n =
     (if (48::nat) \<le> of_char ch \<and> of_char ch \<le> (57::nat)
      then digits_value s (n * 10 + (of_char ch - 48))
      else None)"

definition Atoi :: "string \<Rightarrow> num_error + int" where
  "Atoi s0 =
     (let neg = (s0 \<noteq> [] \<and> hd s0 = CHR ''-'');
          s = (if s0 \<noteq> [] \<and> (hd s0 = CHR ''-'' \<or> hd s0 = CHR ''+'') then tl s0 else s0)
      in if s = [] then Inl ErrSyntax
         else case digits_value s 0 of
                None \<Rightarrow> Inl ErrSyntax
              | Some n \<Rightarrow>
                  (let v = (if neg then - int n else int n)
                   in if - (2 ^ 63) \<le> v \<and> v < 2 ^ 63 then Inr v else Inl ErrRange))"

section \<open>The handlers\<close>

text \<open>\<^verbatim>\<open>getUser\<close>: the argument is the path parameter \<^verbatim>\<open>userID\<close>.\<close>

definition getUser :: "ShardManager \<Rightarrow> string \<Rightarrow> effect" where
  "getUser sm userIDStr =
     (case Atoi userIDStr of
        Inl err \<Rightarrow>
          \<lparr>outcome = Response 400 (ErrorJSON ''Invalid user ID''), logs = [], manager = sm\<rparr>
      | Inr userID \<Rightarrow>
          (case getShardForUser sm userID of
             (lg, Inl p) \<Rightarrow> \<lparr>outcome = Panicked p, logs = lg, manager = sm\<rparr>
           | (lg, Inr i) \<Rightarrow>
               (case select_user userID (shards sm ! i) of
                  (res, sh') \<Rightarrow>
                    \<lparr>outcome =
                       (case res of
                          Inl err \<Rightarrow>
                            if err = ErrNoRows
                            then Response 404 (ErrorJSON ''User not found'')
                            else Response 500 (ErrorJSON (error_text err))
                        | Inr user \<Rightarrow>
                            Response 200
                              (UserJSON user (shardIndex sm userID) ''application_layer'')),
                     logs = lg,
                     manager = sm\<lparr>shards := (shards sm)[i := sh']\<rparr>\<rparr>)))"

text \<open>
  \<^verbatim>\<open>createUser\<close>: the argument is what \<^verbatim>\<open>c.ShouldBindJSON(&user)\<close> made of the request
  body, the binding error or the user.
\<close>

definition createUser :: "ShardManager \<Rightarrow> string + User \<Rightarrow> effect" where
  "createUser sm bound =
     (case bound of
        Inl err \<Rightarrow> \<lparr>outcome = Response 400 (ErrorJSON err), logs = [], manager = sm\<rparr>
      | Inr user \<Rightarrow>
          (case getShardForUser sm (UserID user) of
             (lg, Inl p) \<Rightarrow> \<lparr>outcome = Panicked p, logs = lg, manager = sm\<rparr>
           | (lg, Inr i) \<Rightarrow>
               (case insert_user user (shards sm ! i) of
                  (res, sh') \<Rightarrow>
                    \<lparr>outcome =
                       (case res of
                          Inl err \<Rightarrow> Response 500 (ErrorJSON (error_text err))
                        | Inr t \<Rightarrow>
                            Response 201
                              (UserJSON (user\<lparr>CreatedAt := t\<rparr>) (shardIndex sm (UserID user))
                                 ''application_layer'')),
                     logs = lg,
                     manager = sm\<lparr>shards := (shards sm)[i := sh']\<rparr>\<rparr>)))"

text \<open>
  \<^verbatim>\<open>listAllUsers\<close>: the inner loop scans the rows of shard \<open>i\<close>, skipping (and logging)
  a row that does not scan; the outer loop queries the shards in order, skipping (and
  logging) a shard whose query fails.
\<close>

fun scan_rows :: "nat \<Rightarrow> row list \<Rightarrow> User list \<Rightarrow> User list \<times> log_entry list" where
  "scan_rows i [] allUsers = (allUsers, [])"
| "scan_rows i (r # rs) allUsers =
     (case scan_user r of
        Inl err \<Rightarrow>
          (case scan_rows i rs allUsers of
             (us, lg) \<Rightarrow> (us, ScanFailed i (error_text err) # lg))
      | Inr user \<Rightarrow> scan_rows i rs (allUsers @ [user]))"

fun gather :: "nat \<Rightarrow> shard list \<Rightarrow> User list \<Rightarrow> User list \<times> log_entry list \<times> shard list" where
  "gather i [] allUsers = (allUsers, [], [])"
| "gather i (sh # rest) allUsers =
     (case select_all sh of
        (Inl err, sh') \<Rightarrow>
          (case gather (Suc i) rest allUsers of
             (us, lg, rest') \<Rightarrow> (us, QueryFailed i (error_text err) # lg, sh' # rest'))
      | (Inr rows, sh') \<Rightarrow>
          (case scan_rows i rows allUsers of
             (us1, lg1) \<Rightarrow>
               (case gather (Suc i) rest us1 of
                  (us, lg, rest') \<Rightarrow> (us, lg1 @ lg, sh' # rest'))))"

definition listAllUsers :: "ShardManager \<Rightarrow> effect" where
  "listAllUsers sm =
     (case gather 0 (shards sm) [] of
        (allUsers, lg, shards') \<Rightarrow>
          \<lparr>outcome =
             Response 200
               (UsersJSON allUsers (length allUsers) ''scatter_gather_across_all_shards''),
           logs = lg,
           manager = sm\<lparr>shards := shards'\<rparr>\<rparr>)"

section \<open>Two shards with the sample data\<close>

definition alice :: row where
  "alice = \<lparr>user_id = 2, name = ''Alice Johnson'', email = ''alice@example.com'',
            created_at = Some ''2024-01-01 10:00:00''\<rparr>"

definition grace :: row where
  "grace = \<lparr>user_id = 3, name = ''Grace Lee'', email = ''grace@example.com'',
            created_at = Some ''2024-01-01 10:00:00''\<rparr>"

definition db_up :: "row list \<Rightarrow> shard" where
  "db_up rs = \<lparr>down = None, users = rs, now = ''2024-06-01 12:00:00'', calls = []\<rparr>"

definition db_down :: "row list \<Rightarrow> shard" where
  "db_down rs =
     \<lparr>down = Some ''pq: the database system is shutting down'', users = rs,
      now = ''2024-06-01 12:00:00'', calls = []\<rparr>"

definition both_up :: ShardManager where
  "both_up = \<lparr>shards = [db_up [alice], db_up [grace]]\<rparr>"

definition one_down :: ShardManager where
  "one_down = \<lparr>shards = [db_up [alice], db_down [grace]]\<rparr>"

definition all_down :: ShardManager where
  "all_down = \<lparr>shards = [db_down [alice], db_down [grace]]\<rparr>"

definition sample_env :: "string \<Rightarrow> string" where
  "sample_env v =
     (if v = ''SHARD_0_DSN'' then ''postgres://shard_0:5432/users''
      else if v = ''SHARD_1_DSN'' then ''postgres://shard_1:5432/users''
      else [])"

definition open_shards :: "shard \<Rightarrow> shard \<Rightarrow> string \<Rightarrow> string + shard" where
  "open_shards s0 s1 dsn =
     (if dsn = ''postgres://shard_0:5432/users'' then Inr s0
      else if dsn = ''postgres://shard_1:5432/users'' then Inr s1
      else Inl ''missing host'')"

subsection \<open>What a shard contributes to the listing\<close>

text \<open>
  The rows of a list that scan, in order, and the users that a shard adds to
  \<^verbatim>\<open>allUsers\<close>: none when its query fails, otherwise the rows that scan, by \<^verbatim>\<open>user_id\<close>.
\<close>

definition scanned :: "row list \<Rightarrow> User list" where
  "scanned rs =
     List.map_filter (\<lambda>r. case scan_user r of Inl err \<Rightarrow> None | Inr user \<Rightarrow> Some user) rs"

definition contribution :: "shard \<Rightarrow> User list" where
  "contribution sh =
     (case down sh of
        Some m \<Rightarrow> []
      | None \<Rightarrow> scanned (sort_key user_id (users sh)))"

section \<open>Properties of the routing function\<close>

lemma go_rem_nonneg: "0 \<le> x \<Longrightarrow> 0 < y \<Longrightarrow> go_rem x y = x mod y"
  using mult_div_mod_eq [of y x]
  by (simp add: go_rem_def go_quot_def sgn_if algebra_simps)

lemma go_rem_neg:
  assumes "x < 0" and "0 < y"
  shows "go_rem x y = - ((- x) mod y)"
proof -
  define q where "q = (- x) div y"
  define r where "r = (- x) mod y"
  have m: "y * q + r = - x"
    unfolding q_def r_def by (rule mult_div_mod_eq)
  have "go_rem x y = x + q * y"
    using assms by (simp add: go_rem_def go_quot_def sgn_if q_def)
  also have "\<dots> = - r"
    using m by (simp add: algebra_simps)
  finally show ?thesis by (simp add: r_def)
qed

lemma getShardForUser_nonneg:
  assumes "0 \<le> k" and "shards sm \<noteq> []"
  shows "getShardForUser sm k =
           ([Routing k (k mod int (length (shards sm)))],
            Inr (nat (k mod int (length (shards sm)))))"
proof -
  from assms(2) have N: "0 < int (length (shards sm))" by simp
  have "shardIndex sm k = k mod int (length (shards sm))"
    unfolding shardIndex_def using assms(1) N by (rule go_rem_nonneg)
  moreover have "0 \<le> k mod int (length (shards sm))"
    using N by simp
  moreover have "k mod int (length (shards sm)) < int (length (shards sm))"
    using N by simp
  ultimately show ?thesis
    using assms(2) by (simp add: getShardForUser_def)
qed

lemma getShardForUser_Inr_bound:
  "getShardForUser sm k = (lg, Inr i) \<Longrightarrow>
     i < length (shards sm) \<and> int i = shardIndex sm k \<and> lg = [Routing k (int i)]"
  by (auto simp: getShardForUser_def split: if_splits)

text \<open>
  Routing panics exactly when there is no shard, or the key is negative and not a
  multiple of the number of shards.
\<close>

lemma getShardForUser_panics_iff:
  "(\<exists>p. snd (getShardForUser sm k) = Inl p) \<longleftrightarrow>
     shards sm = [] \<or> (k < 0 \<and> \<not> int (length (shards sm)) dvd k)"
proof (cases "shards sm = []")
  case True
  then show ?thesis by (simp add: getShardForUser_def)
next
  case False
  then have N: "0 < int (length (shards sm))" by simp
  show ?thesis
  proof (cases "0 \<le> k")
    case True
    then show ?thesis
      using False getShardForUser_nonneg [OF True False] by simp
  next
    case neg: False
    then have k: "k < 0" by simp
    have idx: "shardIndex sm k = - ((- k) mod int (length (shards sm)))"
      unfolding shardIndex_def using k N by (rule go_rem_neg)
    have m0: "0 \<le> (- k) mod int (length (shards sm))"
      using N by simp
    have up: "shardIndex sm k < int (length (shards sm))"
      unfolding idx using N m0 by linarith
    have "0 \<le> shardIndex sm k \<longleftrightarrow> int (length (shards sm)) dvd k"
    proof -
      have "0 \<le> shardIndex sm k \<longleftrightarrow> (- k) mod int (length (shards sm)) = 0"
        unfolding idx using m0 by linarith
      also have "\<dots> \<longleftrightarrow> int (length (shards sm)) dvd k"
        by (simp add: dvd_eq_mod_eq_0 [symmetric])
      finally show ?thesis .
    qed
    then show ?thesis
      using False k up by (simp add: getShardForUser_def)
  qed
qed

lemma received_fields [simp]:
  "down (received c sh) = down sh" "users (received c sh) = users sh"
  "now (received c sh) = now sh" "calls (received c sh) = calls sh @ [c]"
  by (simp_all add: received_def)

lemma snd_select_user [simp]: "snd (select_user k sh) = received (SelectUser k) sh"
  by (simp add: select_user_def)

lemma snd_select_all [simp]: "snd (select_all sh) = received SelectAllUsers sh"
  by (simp add: select_all_def)

lemma length_getUser [simp]: "length (shards (manager (getUser sm p))) = length (shards sm)"
  by (simp add: getUser_def split: sum.splits prod.splits)

lemma length_createUser [simp]:
  "length (shards (manager (createUser sm b))) = length (shards sm)"
  by (simp add: createUser_def split: sum.splits prod.splits)

text \<open>Every shard receives the listing query once, and nothing else changes.\<close>

lemma gather_shards: "snd (snd (gather i shs acc)) = map (received SelectAllUsers) shs"
proof (induction shs arbitrary: i acc)
  case Nil
  show ?case by simp
next
  case (Cons sh rest)
  have sh: "snd (select_all sh) = received SelectAllUsers sh" by simp
  show ?case
  proof (cases "fst (select_all sh)")
    case (Inl err)
    with sh have eq: "select_all sh = (Inl err, received SelectAllUsers sh)"
      by (metis prod.collapse)
    show ?thesis
      using Cons.IH [of "Suc i" acc] by (auto simp: eq split: prod.splits)
  next
    case (Inr rows)
    with sh have eq: "select_all sh = (Inr rows, received SelectAllUsers sh)"
      by (metis prod.collapse)
    show ?thesis
      using Cons.IH [of "Suc i" "fst (scan_rows i rows acc)"]
      by (auto simp: eq split: prod.splits)
  qed
qed

lemma shards_listAllUsers:
  "shards (manager (listAllUsers sm)) = map (received SelectAllUsers) (shards sm)"
  using gather_shards [of 0 "shards sm" "[]"]
  by (auto simp: listAllUsers_def split: prod.splits)

text \<open>
  C1. The claim: for every integer key, negative ones included, routing is total and the
  index lies in \<open>0..<N\<close>. The code takes Go's remainder, which is negative for a negative
  key that is not a multiple of \<open>N\<close>: with two shards the key \<open>-1\<close> gives the index \<open>-1\<close>,
  the log line is printed, and indexing the slice panics.
\<close>

theorem getShardForUser_negative_key_panics:
  "getShardForUser both_up (- 1) = ([Routing (- 1) (- 1)], Inl (IndexOutOfRange (- 1) 2))"
  by (simp add: getShardForUser_def shardIndex_def go_rem_def go_quot_def both_up_def)

text \<open>
  For a fixed number \<open>N\<close> of shards the index is a function of the key alone: any two
  managers with \<open>N\<close> shards give the same index, and so does the manager left by any of
  the three handlers. The index is the remainder of the key by \<open>N\<close> as Go computes it:
  \<open>k mod N\<close> for a key that is not negative, but \<open>- ((- k) mod N)\<close> for a negative one.
  With two shards key 2 is routed to shard 0 and key 3 to shard 1.
\<close>

theorem shardIndex_deterministic_remainder:
  "length (shards sm) = N \<Longrightarrow> length (shards sm') = N \<Longrightarrow> 0 < N \<Longrightarrow>
     shardIndex sm' k = shardIndex sm k \<and>
     shardIndex (manager (getUser sm p)) k = shardIndex sm k \<and>
     shardIndex (manager (createUser sm b)) k = shardIndex sm k \<and>
     shardIndex (manager (listAllUsers sm)) k = shardIndex sm k \<and>
     shardIndex sm k = (if 0 \<le> k then k mod int N else - ((- k) mod int N)) \<and>
     (N = 2 \<longrightarrow> getShardForUser sm 2 = ([Routing 2 0], Inr 0) \<and>
                 getShardForUser sm 3 = ([Routing 3 1], Inr 1))"
proof (intro conjI impI)
  assume N: "length (shards sm) = N" "length (shards sm') = N" "0 < N"
  show "shardIndex sm' k = shardIndex sm k"
    using N by (simp add: shardIndex_def)
  show "shardIndex (manager (getUser sm p)) k = shardIndex sm k"
    by (simp add: shardIndex_def)
  show "shardIndex (manager (createUser sm b)) k = shardIndex sm k"
    by (simp add: shardIndex_def)
  show "shardIndex (manager (listAllUsers sm)) k = shardIndex sm k"
    by (simp add: shardIndex_def shards_listAllUsers)
  show "shardIndex sm k = (if 0 \<le> k then k mod int N else - ((- k) mod int N))"
    using N by (simp add: shardIndex_def go_rem_nonneg go_rem_neg)
  {
    assume "N = 2"
    with N have ne: "shards sm \<noteq> []" and l: "length (shards sm) = 2" by auto
    show "getShardForUser sm 2 = ([Routing 2 0], Inr 0)"
      using getShardForUser_nonneg [of 2 sm] ne l by simp
    show "getShardForUser sm 3 = ([Routing 3 1], Inr 1)"
      using getShardForUser_nonneg [of 3 sm] ne l by simp
  }
qed

theorem shardIndex_deterministic_remainder_witness:
  "length (shards both_up) = 2 \<and> length (shards one_down) = 2 \<and>
   shardIndex one_down (- 7) = shardIndex both_up (- 7) \<and>
   shardIndex both_up (- 7) = - 1 \<and>
   getShardForUser both_up 2 = ([Routing 2 0], Inr 0) \<and>
   getShardForUser both_up 3 = ([Routing 3 1], Inr 1)"
  using shardIndex_deterministic_remainder [of both_up 2 one_down "- 7"]
  by (simp add: both_up_def one_down_def)

text \<open>
  C2. The claim: for every key the index equals \<open>k mod N\<close>, and repeated calls return the
  same index. For the key \<open>-7\<close> and two shards the code computes \<open>-1\<close>, where \<open>-7 mod 2\<close>
  is \<open>1\<close>, and \<^verbatim>\<open>getShardForUser\<close> returns no index at all: it panics on the slice.
\<close>

theorem shardIndex_negative_key_not_mod:
  "shardIndex both_up (- 7) = - 1 \<and>
   (- 7) mod int (length (shards both_up)) = 1 \<and>
   getShardForUser both_up (- 7) = ([Routing (- 7) (- 1)], Inl (IndexOutOfRange (- 1) 2))"
  by (simp add: getShardForUser_def shardIndex_def go_rem_def go_quot_def both_up_def)

section \<open>Properties of the point lookup\<close>

text \<open>What \<^verbatim>\<open>strconv.Atoi\<close> accepts: a first character, then decimal digits only.\<close>

lemma digits_value_digits:
  "digits_value s n = Some v \<Longrightarrow> \<forall>ch \<in> set s. (48::nat) \<le> of_char ch \<and> of_char ch \<le> (57::nat)"
  by (induction s arbitrary: n) (auto split: if_splits)

lemma Atoi_Inr_shape:
  assumes "Atoi s = Inr v"
  shows "s \<noteq> [] \<and> (\<forall>ch \<in> set (tl s). (48::nat) \<le> of_char ch \<and> of_char ch \<le> (57::nat)) \<and>
         - (2 ^ 63) \<le> v \<and> v < 2 ^ 63"
proof -
  define ds where "ds = (if s \<noteq> [] \<and> (hd s = CHR ''-'' \<or> hd s = CHR ''+'') then tl s else s)"
  from assms obtain n where n: "digits_value ds 0 = Some n" and ne: "ds \<noteq> []"
    and rng: "- (2 ^ 63) \<le> v \<and> v < 2 ^ 63"
    by (auto simp: Atoi_def Let_def ds_def split: if_splits option.splits)
  from digits_value_digits [OF n]
  have d: "\<forall>ch \<in> set ds. (48::nat) \<le> of_char ch \<and> of_char ch \<le> (57::nat)" .
  have "s \<noteq> []" using ne by (auto simp: ds_def split: if_splits)
  moreover have "set (tl s) \<subseteq> set ds"
    by (cases s) (auto simp: ds_def)
  ultimately show ?thesis using d rng by blast
qed

text \<open>
  When the key parses and routing returns shard \<open>i\<close>, \<^verbatim>\<open>getUser\<close> sends one lookup to
  shard \<open>i\<close> and to no other shard; the answer is the user, 404 when the shard has no
  such row, and 500 with the error text otherwise.
\<close>

lemma getUser_routed:
  assumes "Atoi p = Inr k" and "getShardForUser sm k = (lg, Inr i)"
  shows "getUser sm p =
           \<lparr>outcome =
              (case fst (select_user k (shards sm ! i)) of
                 Inl err \<Rightarrow>
                   if err = ErrNoRows
                   then Response 404 (ErrorJSON ''User not found'')
                   else Response 500 (ErrorJSON (error_text err))
               | Inr user \<Rightarrow> Response 200 (UserJSON user (int i) ''application_layer'')),
            logs = [Routing k (int i)],
            manager = sm\<lparr>shards := (shards sm)[i := received (SelectUser k) (shards sm ! i)]\<rparr>\<rparr>"
proof -
  from getShardForUser_Inr_bound [OF assms(2)]
  have i: "int i = shardIndex sm k" and lg: "lg = [Routing k (int i)]" by simp_all
  obtain res sh' where q: "select_user k (shards sm ! i) = (res, sh')"
    by (cases "select_user k (shards sm ! i)") auto
  then have sh': "sh' = received (SelectUser k) (shards sm ! i)"
    using snd_select_user [of k "shards sm ! i"] by simp
  show ?thesis
    using assms q by (simp add: getUser_def i [symmetric] lg sh' split: sum.splits)
qed

text \<open>
  C5. The claim: for every key the lookup goes to the one shard \<open>shardIndex k\<close> and the
  caller gets the entity, NotFound or the shard's error. For the key \<open>-1\<close> and two shards
  the handler panics in \<^verbatim>\<open>getShardForUser\<close>: no shard receives a lookup and none of the
  three answers is given.
\<close>

theorem getUser_negative_key_panics:
  "getUser both_up ''-1'' =
     \<lparr>outcome = Panicked (IndexOutOfRange (- 1) 2), logs = [Routing (- 1) (- 1)],
      manager = both_up\<rparr>"
  by (simp add: getUser_def Atoi_def getShardForUser_def shardIndex_def go_rem_def go_quot_def
        both_up_def)

text \<open>
  C10. When the path parameter does not parse as an integer, \<^verbatim>\<open>getUser\<close> answers
  400 "Invalid user ID": nothing is logged (no shard index is computed) and the shard
  manager is returned as it was, so no statement reached any shard and no table changed.
\<close>

theorem getUser_unparsable_id_bad_request:
  "Atoi p = Inl err \<Longrightarrow>
     getUser sm p =
       \<lparr>outcome = Response 400 (ErrorJSON ''Invalid user ID''), logs = [], manager = sm\<rparr>"
  by (simp add: getUser_def)

theorem getUser_unparsable_id_bad_request_witness:
  "Atoi ''12a'' = Inl ErrSyntax \<and>
   getUser both_up ''12a'' =
     \<lparr>outcome = Response 400 (ErrorJSON ''Invalid user ID''), logs = [], manager = both_up\<rparr>"
proof -
  have h: "Atoi ''12a'' = Inl ErrSyntax" by (simp add: Atoi_def)
  show ?thesis using h getUser_unparsable_id_bad_request [OF h, of both_up] by simp
qed

section \<open>Properties of the scatter-gather listing\<close>

lemma fst_select_all:
  "fst (select_all sh) = (case down sh of Some m \<Rightarrow> Inl (ConnError m)
                          | None \<Rightarrow> Inr (sort_key user_id (users sh)))"
  by (simp add: select_all_def)

lemma select_all_down: "down sh = Some m \<Longrightarrow> select_all sh = (Inl (ConnError m), received SelectAllUsers sh)"
  by (simp add: select_all_def)

lemma select_all_up:
  "down sh = None \<Longrightarrow> select_all sh = (Inr (sort_key user_id (users sh)), received SelectAllUsers sh)"
  by (simp add: select_all_def)

lemma scan_rows_users: "fst (scan_rows i rs acc) = acc @ scanned rs"
proof (induction rs arbitrary: acc)
  case Nil
  show ?case by (simp add: scanned_def map_filter_simps)
next
  case (Cons r rs)
  show ?case
  proof (cases "scan_user r")
    case (Inl err)
    then show ?thesis
      using Cons.IH [of acc] by (auto simp: scanned_def map_filter_simps split: prod.splits)
  next
    case (Inr user)
    then show ?thesis
      using Cons.IH [of "acc @ [user]"] by (simp add: scanned_def map_filter_simps)
  qed
qed

lemma gather_users: "fst (gather i shs acc) = acc @ concat (map contribution shs)"
proof (induction shs arbitrary: i acc)
  case Nil
  show ?case by simp
next
  case (Cons sh rest)
  show ?case
  proof (cases "down sh")
    case (Some m)
    then show ?thesis
      using Cons.IH [of "Suc i" acc]
      by (auto simp: select_all_down contribution_def split: prod.splits)
  next
    case None
    have "fst (scan_rows i (sort_key user_id (users sh)) acc) = acc @ contribution sh"
      using None by (simp add: scan_rows_users contribution_def)
    then show ?thesis
      using None Cons.IH [of "Suc i" "acc @ contribution sh"]
      by (auto simp: select_all_up split: prod.splits)
  qed
qed

lemma gather_logs_down:
  "j < length shs \<Longrightarrow> down (shs ! j) = Some m \<Longrightarrow>
     QueryFailed (i + j) m \<in> set (fst (snd (gather i shs acc)))"
proof (induction shs arbitrary: i j acc)
  case Nil
  then show ?case by simp
next
  case (Cons sh rest)
  show ?case
  proof (cases j)
    case 0
    with Cons.prems have "down sh = Some m" by simp
    then show ?thesis
      using 0 by (simp add: select_all_down split: prod.splits)
  next
    case (Suc j')
    with Cons.prems have j': "j' < length rest" "down (rest ! j') = Some m" by simp_all
    have step: "\<And>a. QueryFailed (Suc i + j') m \<in> set (fst (snd (gather (Suc i) rest a)))"
      using Cons.IH [OF j'] .
    show ?thesis
    proof (cases "down sh")
      case (Some m')
      then show ?thesis
        using step [of acc] Suc by (auto simp: select_all_down split: prod.splits)
    next
      case None
      then show ?thesis
        using step [of "fst (scan_rows i (sort_key user_id (users sh)) acc)"] Suc
        by (auto simp: select_all_up split: prod.splits)
    qed
  qed
qed

lemma gather_all_down:
  "list_all (\<lambda>sh. down sh \<noteq> None) shs \<Longrightarrow>
     gather i shs acc =
       (acc, map (\<lambda>j. QueryFailed (i + j) (the (down (shs ! j)))) [0..<length shs],
        map (received SelectAllUsers) shs)"
proof (induction shs arbitrary: i)
  case Nil
  show ?case by simp
next
  case (Cons sh rest)
  then obtain m where m: "down sh = Some m" and rest: "list_all (\<lambda>sh. down sh \<noteq> None) rest"
    by auto
  have idx: "[0..<Suc (length rest)] = 0 # map Suc [0..<length rest]"
    by (simp add: upt_conv_Cons map_Suc_upt del: upt_Suc)
  show ?case
    using Cons.IH [OF rest, of "Suc i"] m
    by (simp add: select_all_down idx comp_def del: upt_Suc)
qed

text \<open>
  C3, as the code has it. When the query of shard \<open>i\<close> fails, \<^verbatim>\<open>listAllUsers\<close> still
  answers 200 with the rows that scan of every shard whose query succeeded, in shard
  order, and their number; shard \<open>i\<close> contributes nothing. The failure is recorded in
  the log, in an entry that names \<open>i\<close> and carries the error text. The response itself
  has no field for it.
\<close>

theorem listAllUsers_skips_failed_shard:
  "i < length (shards sm) \<Longrightarrow> down (shards sm ! i) = Some m \<Longrightarrow>
     outcome (listAllUsers sm) =
       Response 200
         (UsersJSON (concat (map contribution (shards sm)))
            (length (concat (map contribution (shards sm))))
            ''scatter_gather_across_all_shards'') \<and>
     contribution (shards sm ! i) = [] \<and>
     QueryFailed i m \<in> set (logs (listAllUsers sm))"
proof (intro conjI)
  assume i: "i < length (shards sm)" and m: "down (shards sm ! i) = Some m"
  obtain us lg shs where g: "gather 0 (shards sm) [] = (us, lg, shs)"
    by (cases "gather 0 (shards sm) []") auto
  have us: "us = concat (map contribution (shards sm))"
    using gather_users [of 0 "shards sm" "[]"] g by simp
  have lg: "QueryFailed i m \<in> set lg"
    using gather_logs_down [OF i m, of 0 "[]"] g by simp
  show "outcome (listAllUsers sm) =
       Response 200
         (UsersJSON (concat (map contribution (shards sm)))
            (length (concat (map contribution (shards sm))))
            ''scatter_gather_across_all_shards'')"
    by (simp add: listAllUsers_def g us)
  show "contribution (shards sm ! i) = []"
    using m by (simp add: contribution_def)
  show "QueryFailed i m \<in> set (logs (listAllUsers sm))"
    using lg by (simp add: listAllUsers_def g)
qed

theorem listAllUsers_skips_failed_shard_witness:
  "(1::nat) < length (shards one_down) \<and>
   down (shards one_down ! 1) = Some ''pq: the database system is shutting down'' \<and>
   outcome (listAllUsers one_down) =
     Response 200
       (UsersJSON
          [\<lparr>UserID = 2, Name = ''Alice Johnson'', Email = ''alice@example.com'',
            CreatedAt = ''2024-01-01 10:00:00''\<rparr>] 1 ''scatter_gather_across_all_shards'') \<and>
   QueryFailed 1 ''pq: the database system is shutting down'' \<in> set (logs (listAllUsers one_down))"
  using listAllUsers_skips_failed_shard
    [of 1 one_down "''pq: the database system is shutting down''"]
  by (simp add: one_down_def db_up_def db_down_def contribution_def scanned_def
        map_filter_simps scan_user_def alice_def)

text \<open>
  C3 as claimed asks for an indicator of the omission in what the caller receives. With
  shard 1 down the caller receives exactly the response of a manager whose shard 1 is up
  and empty.
\<close>

theorem listAllUsers_partial_result_not_in_response:
  "outcome (listAllUsers one_down) = outcome (listAllUsers \<lparr>shards = [db_up [alice], db_up []]\<rparr>) \<and>
   outcome (listAllUsers one_down) =
     Response 200
       (UsersJSON
          [\<lparr>UserID = 2, Name = ''Alice Johnson'', Email = ''alice@example.com'',
            CreatedAt = ''2024-01-01 10:00:00''\<rparr>] 1 ''scatter_gather_across_all_shards'')"
  by (simp add: listAllUsers_def one_down_def db_up_def db_down_def select_all_def
        scan_user_def alice_def)

text \<open>
  C4 as claimed asks for a failure when every shard fails. With both shards down the
  handler answers 200 with no users and count 0.
\<close>

theorem listAllUsers_all_shards_down_is_success:
  "outcome (listAllUsers all_down) =
     Response 200 (UsersJSON [] 0 ''scatter_gather_across_all_shards'')"
  by (simp add: listAllUsers_def all_down_def db_down_def select_all_def)

text \<open>
  C4, as the code has it. When the query of every shard fails, \<^verbatim>\<open>listAllUsers\<close> answers
  200 with an empty list and count 0, and the log holds one entry per shard, in order,
  with the shard's index and error text.
\<close>

theorem listAllUsers_all_failed:
  "\<forall>sh \<in> set (shards sm). down sh \<noteq> None \<Longrightarrow>
     outcome (listAllUsers sm) =
       Response 200 (UsersJSON [] 0 ''scatter_gather_across_all_shards'') \<and>
     logs (listAllUsers sm) =
       map (\<lambda>i. QueryFailed i (the (down (shards sm ! i)))) [0..<length (shards sm)]"
proof -
  assume "\<forall>sh \<in> set (shards sm). down sh \<noteq> None"
  then have "list_all (\<lambda>sh. down sh \<noteq> None) (shards sm)"
    by (simp add: list_all_iff)
  from gather_all_down [OF this, of 0 "[]"] show ?thesis
    by (simp add: listAllUsers_def)
qed

theorem listAllUsers_all_failed_witness:
  "map down (shards all_down) =
     [Some ''pq: the database system is shutting down'',
      Some ''pq: the database system is shutting down''] \<and>
   outcome (listAllUsers all_down) =
     Response 200 (UsersJSON [] 0 ''scatter_gather_across_all_shards'') \<and>
   logs (listAllUsers all_down) =
     [QueryFailed 0 ''pq: the database system is shutting down'',
      QueryFailed 1 ''pq: the database system is shutting down'']"
proof -
  have h: "\<forall>sh \<in> set (shards all_down). down sh \<noteq> None"
    by (simp add: all_down_def db_down_def)
  show ?thesis
    using h listAllUsers_all_failed [OF h]
    by (simp add: all_down_def db_down_def upt_conv_Cons)
qed

section \<open>Properties of the insert\<close>

text \<open>
  When routing returns shard \<open>i\<close>, \<^verbatim>\<open>createUser\<close> sends one insert to shard \<open>i\<close> and to
  no other shard; on success the answer is 201 with the user and the timestamp the
  database returned, on failure 500 with the error text.
\<close>

lemma createUser_routed:
  assumes "getShardForUser sm (UserID u) = (lg, Inr i)"
  shows "createUser sm (Inr u) =
           \<lparr>outcome =
              (case fst (insert_user u (shards sm ! i)) of
                 Inl err \<Rightarrow> Response 500 (ErrorJSON (error_text err))
               | Inr t \<Rightarrow>
                   Response 201 (UserJSON (u\<lparr>CreatedAt := t\<rparr>) (int i) ''application_layer'')),
            logs = [Routing (UserID u) (int i)],
            manager = sm\<lparr>shards := (shards sm)[i := snd (insert_user u (shards sm ! i))]\<rparr>\<rparr>"
proof -
  from getShardForUser_Inr_bound [OF assms]
  have i: "int i = shardIndex sm (UserID u)" and lg: "lg = [Routing (UserID u) (int i)]"
    by simp_all
  obtain res sh' where q: "insert_user u (shards sm ! i) = (res, sh')"
    by (cases "insert_user u (shards sm ! i)") auto
  show ?thesis
    using assms q by (simp add: createUser_def i [symmetric] lg split: sum.splits)
qed

lemma insert_user_duplicate_key:
  assumes "r \<in> set (users sh)" and "user_id r = UserID u"
  shows "insert_user u sh =
           (Inl (case down sh of Some m \<Rightarrow> ConnError m | None \<Rightarrow> UniqueViolation ''users_pkey''),
            received (InsertUser (UserID u) (Name u) (Email u)) sh)"
proof -
  from assms have "list_ex (\<lambda>r. user_id r = UserID u) (users sh)"
    by (auto simp: list_ex_iff)
  then show ?thesis
    by (simp add: insert_user_def Let_def split: option.splits)
qed

text \<open>
  C6. The claim: for every entity the insert goes to exactly the shard
  \<open>shardIndex (key)\<close>, and the caller gets the entity with its timestamp or an error.
  For a user with key \<open>-1\<close> and two shards the handler panics in \<^verbatim>\<open>getShardForUser\<close>:
  no shard receives the insert.
\<close>

theorem createUser_negative_key_panics:
  "createUser both_up
     (Inr \<lparr>UserID = - 1, Name = ''Nina'', Email = ''nina@example.com'', CreatedAt = []\<rparr>) =
     \<lparr>outcome = Panicked (IndexOutOfRange (- 1) 2), logs = [Routing (- 1) (- 1)],
      manager = both_up\<rparr>"
  by (simp add: createUser_def getShardForUser_def shardIndex_def go_rem_def go_quot_def
        both_up_def)

text \<open>
  C8. A user whose key is already stored on the owning shard is not inserted again:
  \<^verbatim>\<open>createUser\<close> answers 500, with the violation of the primary key \<^verbatim>\<open>users_pkey\<close> as
  the error whenever the shard is reachable, and the table of every shard is as before;
  the owning shard received the one insert statement and no other shard received
  anything.
\<close>

theorem createUser_duplicate_key_rejected:
  "getShardForUser sm (UserID u) = (lg, Inr i) \<Longrightarrow>
   r \<in> set (users (shards sm ! i)) \<Longrightarrow> user_id r = UserID u \<Longrightarrow>
     (\<exists>msg. outcome (createUser sm (Inr u)) = Response 500 (ErrorJSON msg)) \<and>
     (down (shards sm ! i) = None \<longrightarrow>
        outcome (createUser sm (Inr u)) =
          Response 500 (ErrorJSON (error_text (UniqueViolation ''users_pkey'')))) \<and>
     map users (shards (manager (createUser sm (Inr u)))) = map users (shards sm) \<and>
     shards (manager (createUser sm (Inr u))) =
       (shards sm)[i := received (InsertUser (UserID u) (Name u) (Email u)) (shards sm ! i)]"
proof -
  assume route: "getShardForUser sm (UserID u) = (lg, Inr i)"
    and r: "r \<in> set (users (shards sm ! i))" "user_id r = UserID u"
  note ins = insert_user_duplicate_key [OF r]
  note cu = createUser_routed [OF route]
  have out: "outcome (createUser sm (Inr u)) =
      Response 500 (ErrorJSON (error_text
        (case down (shards sm ! i) of Some m \<Rightarrow> ConnError m
         | None \<Rightarrow> UniqueViolation ''users_pkey'')))"
    by (simp add: cu ins)
  have sh: "shards (manager (createUser sm (Inr u))) =
       (shards sm)[i := received (InsertUser (UserID u) (Name u) (Email u)) (shards sm ! i)]"
    by (simp add: cu ins)
  have "map users ((shards sm)[i := received (InsertUser (UserID u) (Name u) (Email u)) (shards sm ! i)])
          = (map users (shards sm))[i := users (shards sm ! i)]"
    by (simp add: map_update)
  also have "\<dots> = map users (shards sm)"
    using getShardForUser_Inr_bound [OF route] by (simp add: list_update_same_conv)
  finally have tables: "map users (shards (manager (createUser sm (Inr u)))) = map users (shards sm)"
    by (simp add: sh)
  from out sh tables show ?thesis by simp
qed

theorem createUser_duplicate_key_rejected_witness:
  "getShardForUser both_up 2 = ([Routing 2 0], Inr 0) \<and>
   alice \<in> set (users (shards both_up ! 0)) \<and> user_id alice = 2 \<and>
   outcome (createUser both_up
      (Inr \<lparr>UserID = 2, Name = ''Alma'', Email = ''alma@example.com'', CreatedAt = []\<rparr>)) =
     Response 500 (ErrorJSON ''pq: duplicate key value violates unique constraint users_pkey'') \<and>
   map users (shards (manager (createUser both_up
      (Inr \<lparr>UserID = 2, Name = ''Alma'', Email = ''alma@example.com'', CreatedAt = []\<rparr>)))) =
     [[alice], [grace]]"
proof -
  have route: "getShardForUser both_up
      (UserID \<lparr>UserID = 2, Name = ''Alma'', Email = ''alma@example.com'', CreatedAt = []\<rparr>) =
      ([Routing 2 0], Inr 0)"
    by (simp add: getShardForUser_def shardIndex_def go_rem_def go_quot_def both_up_def)
  have r: "alice \<in> set (users (shards both_up ! 0))"
    by (simp add: both_up_def db_up_def)
  have k: "user_id alice =
      UserID \<lparr>UserID = 2, Name = ''Alma'', Email = ''alma@example.com'', CreatedAt = []\<rparr>"
    by (simp add: alice_def)
  show ?thesis
    using route r k createUser_duplicate_key_rejected [OF route r k]
    by (simp add: both_up_def db_up_def)
qed

section \<open>Properties of the start-up\<close>

text \<open>
  C7. \<^verbatim>\<open>NewShardManager\<close> is all or nothing. A shard manager is returned only when both
  handles were opened and both pings succeeded, and then it holds exactly these two
  handles, each pinged. If opening or pinging either shard fails, the result is an
  error and no shard manager.
\<close>

theorem NewShardManager_all_or_nothing:
  "(\<forall>sm. snd (NewShardManager getenv sql_Open) = Inr sm \<longrightarrow>
      (\<exists>s0 s1. sql_Open (getenv ''SHARD_0_DSN'') = Inr s0 \<and>
               sql_Open (getenv ''SHARD_1_DSN'') = Inr s1 \<and>
               down s0 = None \<and> down s1 = None \<and>
               shards sm = [received Ping s0, received Ping s1])) \<and>
   ((\<exists>e. sql_Open (getenv ''SHARD_0_DSN'') = Inl e) \<or>
    (\<exists>e. sql_Open (getenv ''SHARD_1_DSN'') = Inl e) \<or>
    (\<exists>s m. sql_Open (getenv ''SHARD_0_DSN'') = Inr s \<and> down s = Some m) \<or>
    (\<exists>s m. sql_Open (getenv ''SHARD_1_DSN'') = Inr s \<and> down s = Some m) \<longrightarrow>
      (\<exists>msg. NewShardManager getenv sql_Open = ([], Inl msg)))"
  by (auto simp: NewShardManager_def ping_def Let_def split: sum.splits option.splits)

theorem NewShardManager_all_or_nothing_witness:
  "NewShardManager sample_env (open_shards (db_up [alice]) (db_down [grace])) =
     ([], Inl ''shard 1 ping failed: pq: the database system is shutting down'') \<and>
   NewShardManager sample_env (open_shards (db_up [alice]) (db_up [grace])) =
     ([Connected], Inr \<lparr>shards = [received Ping (db_up [alice]), received Ping (db_up [grace])]\<rparr>)"
  using NewShardManager_all_or_nothing
      [of sample_env "open_shards (db_up [alice]) (db_down [grace])"]
    NewShardManager_all_or_nothing
      [of sample_env "open_shards (db_up [alice]) (db_up [grace])"]
  by (simp add: NewShardManager_def sample_env_def open_shards_def ping_def db_up_def db_down_def)

section \<open>How failures reach the caller\<close>

text \<open>
  C9, as the code has it. When the shard chosen for a lookup or an insert fails, the
  caller gets 404 (no such row) or 500 with the error text of the shard and nothing
  else; the index of the shard is in the log line of the routing, not in the response.
  When the query of a shard fails during the listing, the caller gets 200 and the
  failure is in the log, with the index of the shard.
\<close>

theorem request_failures_carry_error_text_only:
  "(Atoi p = Inr k \<and> getShardForUser sm k = (lg, Inr i) \<and>
    fst (select_user k (shards sm ! i)) = Inl e \<longrightarrow>
      outcome (getUser sm p) =
        (if e = ErrNoRows then Response 404 (ErrorJSON ''User not found'')
         else Response 500 (ErrorJSON (error_text e))) \<and>
      logs (getUser sm p) = [Routing k (int i)]) \<and>
   (getShardForUser sm (UserID u) = (lg', Inr i') \<and>
    fst (insert_user u (shards sm ! i')) = Inl e' \<longrightarrow>
      outcome (createUser sm (Inr u)) = Response 500 (ErrorJSON (error_text e')) \<and>
      logs (createUser sm (Inr u)) = [Routing (UserID u) (int i')]) \<and>
   (j < length (shards sm) \<and> down (shards sm ! j) = Some m \<longrightarrow>
      (\<exists>us. outcome (listAllUsers sm) =
         Response 200 (UsersJSON us (length us) ''scatter_gather_across_all_shards'')) \<and>
      QueryFailed j m \<in> set (logs (listAllUsers sm)))"
proof (intro conjI impI)
  assume h: "Atoi p = Inr k \<and> getShardForUser sm k = (lg, Inr i) \<and>
    fst (select_user k (shards sm ! i)) = Inl e"
  then have g: "getUser sm p = \<lparr>outcome =
              (case fst (select_user k (shards sm ! i)) of
                 Inl err \<Rightarrow>
                   if err = ErrNoRows
                   then Response 404 (ErrorJSON ''User not found'')
                   else Response 500 (ErrorJSON (error_text err))
               | Inr user \<Rightarrow> Response 200 (UserJSON user (int i) ''application_layer'')),
            logs = [Routing k (int i)],
            manager = sm\<lparr>shards := (shards sm)[i := received (SelectUser k) (shards sm ! i)]\<rparr>\<rparr>"
    using getUser_routed [of p k sm lg i] by simp
  show "outcome (getUser sm p) =
        (if e = ErrNoRows then Response 404 (ErrorJSON ''User not found'')
         else Response 500 (ErrorJSON (error_text e)))"
    using h by (simp add: g)
  show "logs (getUser sm p) = [Routing k (int i)]"
    by (simp add: g)
next
  assume h: "getShardForUser sm (UserID u) = (lg', Inr i') \<and>
    fst (insert_user u (shards sm ! i')) = Inl e'"
  then have c: "getShardForUser sm (UserID u) = (lg', Inr i')" by simp
  show "outcome (createUser sm (Inr u)) = Response 500 (ErrorJSON (error_text e'))"
    using h by (simp add: createUser_routed [OF c])
  show "logs (createUser sm (Inr u)) = [Routing (UserID u) (int i')]"
    by (simp add: createUser_routed [OF c])
next
  assume h: "j < length (shards sm) \<and> down (shards sm ! j) = Some m"
  obtain us lg2 shs where g: "gather 0 (shards sm) [] = (us, lg2, shs)"
    by (cases "gather 0 (shards sm) []") auto
  show "\<exists>us. outcome (listAllUsers sm) =
         Response 200 (UsersJSON us (length us) ''scatter_gather_across_all_shards'')"
    by (simp add: listAllUsers_def g)
  have "QueryFailed (0 + j) m \<in> set (fst (snd (gather 0 (shards sm) [])))"
    using h by (intro gather_logs_down) simp_all
  then show "QueryFailed j m \<in> set (logs (listAllUsers sm))"
    by (simp add: listAllUsers_def g)
qed

theorem request_failures_carry_error_text_only_witness:
  "Atoi ''3'' = Inr 3 \<and> getShardForUser one_down 3 = ([Routing 3 1], Inr 1) \<and>
   fst (select_user 3 (shards one_down ! 1)) =
     Inl (ConnError ''pq: the database system is shutting down'') \<and>
   outcome (getUser one_down ''3'') =
     Response 500 (ErrorJSON ''pq: the database system is shutting down'') \<and>
   logs (getUser one_down ''3'') = [Routing 3 1] \<and>
   outcome (createUser one_down
       (Inr \<lparr>UserID = 3, Name = ''Gus'', Email = ''gus@example.com'', CreatedAt = []\<rparr>)) =
     Response 500 (ErrorJSON ''pq: the database system is shutting down'') \<and>
   logs (createUser one_down
       (Inr \<lparr>UserID = 3, Name = ''Gus'', Email = ''gus@example.com'', CreatedAt = []\<rparr>)) =
     [Routing 3 1] \<and>
   QueryFailed 1 ''pq: the database system is shutting down'' \<in> set (logs (listAllUsers one_down))"
proof -
  have route: "getShardForUser one_down 3 = ([Routing 3 1], Inr 1)"
    by (simp add: getShardForUser_def shardIndex_def go_rem_def go_quot_def one_down_def)
  have a: "Atoi ''3'' = Inr 3" by (simp add: Atoi_def)
  have sh: "shards one_down ! Suc 0 = db_down [grace]" by (simp add: one_down_def)
  have sel: "fst (select_user 3 (shards one_down ! 1)) =
     Inl (ConnError ''pq: the database system is shutting down'')"
    by (simp add: sh select_user_def db_down_def)
  have ins: "fst (insert_user
       \<lparr>UserID = 3, Name = ''Gus'', Email = ''gus@example.com'', CreatedAt = []\<rparr>
       (shards one_down ! 1)) = Inl (ConnError ''pq: the database system is shutting down'')"
    by (simp add: sh insert_user_def db_down_def Let_def)
  have dn: "down (shards one_down ! 1) = Some ''pq: the database system is shutting down''"
    by (simp add: sh db_down_def)
  have len: "(1::nat) < length (shards one_down)" by (simp add: one_down_def)
  show ?thesis
    using a route sel ins dn len
      request_failures_carry_error_text_only
        [of "''3''" 3 one_down "[Routing 3 1]" 1
            "ConnError ''pq: the database system is shutting down''"
            "\<lparr>UserID = 3, Name = ''Gus'', Email = ''gus@example.com'', CreatedAt = []\<rparr>"
            "[Routing 3 1]" 1
            "ConnError ''pq: the database system is shutting down''"
            1 "''pq: the database system is shutting down''"]
    by simp
qed

text \<open>
  C9 as claimed asks that the error names the shard. A duplicate of key 2 fails on
  shard 0 and a duplicate of key 3 fails on shard 1; the caller receives the same
  response in both cases.
\<close>

theorem createUser_error_does_not_name_shard:
  "outcome (createUser both_up
      (Inr \<lparr>UserID = 2, Name = ''Alma'', Email = ''alma@example.com'', CreatedAt = []\<rparr>)) =
     Response 500 (ErrorJSON ''pq: duplicate key value violates unique constraint users_pkey'') \<and>
   outcome (createUser both_up
      (Inr \<lparr>UserID = 3, Name = ''Gus'', Email = ''gus@example.com'', CreatedAt = []\<rparr>)) =
     Response 500 (ErrorJSON ''pq: duplicate key value violates unique constraint users_pkey'')"
  by (simp add: createUser_def getShardForUser_def shardIndex_def go_rem_def go_quot_def
        both_up_def db_up_def insert_user_def Let_def alice_def grace_def)

end
